theory Spec2Isabelle
  imports Main "HOL-Library.Word"
begin

section \<open>Values shared by the two scripts\<close>

text \<open>
  Both scripts read \<^verbatim>\<open>os.environ\<close>, build a dictionary and print it with
  \<^verbatim>\<open>print(json.dumps(...))\<close>. A Python string is modelled as a \<^typ>\<open>string\<close>
  whose characters are ASCII; the environment is a partial map from variable names to
  values; standard output is the list of the texts handed to \<^verbatim>\<open>print\<close>, one
  entry per call (the newline that \<^verbatim>\<open>print\<close> appends is left implicit).
\<close>

type_synonym environ = "string \<rightharpoonup> string"

text \<open>\<^verbatim>\<open>os.environ.get(key, default)\<close>: the default is used only when the key is absent.\<close>

definition environ_get :: "environ \<Rightarrow> string \<Rightarrow> string \<Rightarrow> string" where
  "environ_get env key dflt = (case env key of None \<Rightarrow> dflt | Some v \<Rightarrow> v)"

subsection \<open>JSON values and \<^verbatim>\<open>json.dumps\<close>\<close>

text \<open>
  The dictionaries the scripts build hold strings, integers, lists and nested
  dictionaries. A dictionary keeps its insertion order, which \<^verbatim>\<open>json.dumps\<close>
  follows, so an object is an association list.
\<close>

datatype json =
    JString string
  | JInt int
  | JArray "json list"
  | JObject "(string \<times> json) list"

text \<open>The keys of an object in order, a lookup by key, and a lookup along a path of keys.\<close>

fun obj_keys :: "json \<Rightarrow> string list" where
  "obj_keys (JObject kvs) = map fst kvs"
| "obj_keys _ = []"

fun obj_get :: "json \<Rightarrow> string \<Rightarrow> json option" where
  "obj_get (JObject kvs) k = map_of kvs k"
| "obj_get _ k = None"

fun obj_path :: "json \<Rightarrow> string list \<Rightarrow> json option" where
  "obj_path j [] = Some j"
| "obj_path j (k # ks) = (case obj_get j k of None \<Rightarrow> None | Some j' \<Rightarrow> obj_path j' ks)"

text \<open>
  \<^verbatim>\<open>json.dumps\<close> with its default \<^verbatim>\<open>ensure_ascii=True\<close>: inside the quotes, the
  quote, the backslash and the control characters are escaped, and every character
  outside the range from the space to the tilde is written as \<^verbatim>\<open>\u00xx\<close>.
\<close>

definition hex_digit :: "nat \<Rightarrow> char" where
  "hex_digit n = ''0123456789abcdef'' ! (n mod 16)"

definition escape_char :: "char \<Rightarrow> string" where
  "escape_char c =
     (if c = CHR 0x22 then [CHR 0x5C, CHR 0x22]
      else if c = CHR 0x5C then [CHR 0x5C, CHR 0x5C]
      else if c = CHR 0x0A then [CHR 0x5C, CHR ''n'']
      else if c = CHR 0x0D then [CHR 0x5C, CHR ''r'']
      else if c = CHR 0x09 then [CHR 0x5C, CHR ''t'']
      else if c = CHR 0x08 then [CHR 0x5C, CHR ''b'']
      else if c = CHR 0x0C then [CHR 0x5C, CHR ''f'']
      else if of_char c < (32::nat) \<or> (126::nat) < of_char c
        then [CHR 0x5C, CHR ''u'', CHR ''0'', CHR ''0'',
              hex_digit (of_char c div 16), hex_digit (of_char c)]
      else [c])"

definition encode_basestring_ascii :: "string \<Rightarrow> string" where
  "encode_basestring_ascii s = [CHR 0x22] @ concat (map escape_char s) @ [CHR 0x22]"

text \<open>The decimal text of an integer, as \<^verbatim>\<open>int.__repr__\<close> writes it.\<close>

fun digits :: "nat \<Rightarrow> string" where
  "digits n =
     (if n < 10 then [char_of (48 + n)]
      else digits (n div 10) @ [char_of (48 + n mod 10)])"

definition int_repr :: "int \<Rightarrow> string" where
  "int_repr i = (if i < 0 then CHR ''-'' # digits (nat (- i)) else digits (nat i))"

text \<open>\<^verbatim>\<open>sep.join(parts)\<close>.\<close>

fun join :: "string \<Rightarrow> string list \<Rightarrow> string" where
  "join sep [] = []"
| "join sep [x] = x"
| "join sep (x # y # ys) = x @ sep @ join sep (y # ys)"

text \<open>
  The separators of the encoder. Without \<^verbatim>\<open>indent\<close> the items are separated by a
  comma and a space and nothing is broken into lines; with \<^verbatim>\<open>indent=n\<close> the items
  are separated by a comma, and every item starts on a line of its own, indented by
  \<open>n\<close> spaces per nesting level. The key separator is a colon and a space in both.
\<close>

fun newline_indent :: "nat option \<Rightarrow> nat \<Rightarrow> string" where
  "newline_indent None lvl = []"
| "newline_indent (Some n) lvl = CHR 0x0A # replicate (n * lvl) (CHR '' '')"

fun item_separator :: "nat option \<Rightarrow> string" where
  "item_separator None = '', ''"
| "item_separator (Some n) = '',''"

fun json_encode :: "nat option \<Rightarrow> nat \<Rightarrow> json \<Rightarrow> string" where
  "json_encode ind lvl (JString s) = encode_basestring_ascii s"
| "json_encode ind lvl (JInt i) = int_repr i"
| "json_encode ind lvl (JArray xs) =
     (if xs = [] then ''[]''
      else ''['' @ newline_indent ind (Suc lvl)
        @ join (item_separator ind @ newline_indent ind (Suc lvl))
            (map (json_encode ind (Suc lvl)) xs)
        @ newline_indent ind lvl @ '']'')"
| "json_encode ind lvl (JObject kvs) =
     (if kvs = [] then ''{}''
      else ''{'' @ newline_indent ind (Suc lvl)
        @ join (item_separator ind @ newline_indent ind (Suc lvl))
            (map (\<lambda>(k, v). encode_basestring_ascii k @ '': '' @ json_encode ind (Suc lvl) v) kvs)
        @ newline_indent ind lvl @ ''}'')"

definition json_dumps :: "nat option \<Rightarrow> json \<Rightarrow> string" where
  "json_dumps ind j = json_encode ind 0 j"


section \<open>The greeter: \<^verbatim>\<open>notes/code_examples/python_function_example/main.py\<close>\<close>

text \<open>
  The script reads \<^verbatim>\<open>sys.version\<close> and \<^verbatim>\<open>sys.platform\<close>; they are the two
  strings of the interpreter the script runs on.
\<close>

record sys =
  version :: string
  platform :: string

definition greeter_message :: "environ \<Rightarrow> string" where
  "greeter_message env = ''Hello, '' @ environ_get env ''NAME'' ''World'' @ ''!''"

definition greeter_response :: "sys \<Rightarrow> environ \<Rightarrow> json" where
  "greeter_response sy env =
     JObject
       [(''message'', JString (greeter_message env)),
        (''timestamp'', JString ''2023-01-16T12:34:56Z''),
        (''environment'',
           JObject
             [(''python_version'', JString (version sy)),
              (''platform'', JString (platform sy))])]"

text \<open>
  \<^verbatim>\<open>main()\<close> prints the response with \<^verbatim>\<open>indent=2\<close> and returns it: the result
  is standard output and the returned dictionary.
\<close>

definition greeter_main :: "sys \<Rightarrow> environ \<Rightarrow> string list \<times> json" where
  "greeter_main sy env =
     ([json_dumps (Some 2) (greeter_response sy env)], greeter_response sy env)"


section \<open>The image processor: \<^verbatim>\<open>test.py\<close>\<close>

subsection \<open>Exceptions\<close>

text \<open>
  Two kinds of exception occur. \<^verbatim>\<open>int()\<close> raises a \<^verbatim>\<open>ValueError\<close> on a text
  that is no integer literal; the model keeps the rejected text. Every exception that
  a collaborator (the HTTP client, the image library) raises is an instance of a
  subclass of \<^verbatim>\<open>Exception\<close>; the model keeps what \<^verbatim>\<open>str(e)\<close> returns for it.
\<close>

datatype value_error = ValueError string

datatype exn = Raised string

fun str :: "exn \<Rightarrow> string" where
  "str (Raised msg) = msg"

subsection \<open>\<^verbatim>\<open>int(text)\<close>\<close>

text \<open>
  The built-in conversion in base 10, on ASCII text: white space around the literal
  is dropped, one sign may lead, and the digits may be grouped by single underscores
  that stand between two digits. (Digits and white space beyond ASCII, which the
  interpreter also accepts, and its optional limit on the number of digits are not
  part of the model.)
\<close>

definition is_space :: "char \<Rightarrow> bool" where
  "is_space c = (c \<in> set [CHR 0x09, CHR 0x0A, CHR 0x0B, CHR 0x0C, CHR 0x0D, CHR '' ''])"

definition strip :: "string \<Rightarrow> string" where
  "strip s = rev (dropWhile is_space (rev (dropWhile is_space s)))"

definition is_digit :: "char \<Rightarrow> bool" where
  "is_digit c = ((48::nat) \<le> of_char c \<and> of_char c \<le> (57::nat))"

definition digit_value :: "char \<Rightarrow> nat" where
  "digit_value c = of_char c - 48"

fun int_digits :: "nat \<Rightarrow> string \<Rightarrow> nat option" where
  "int_digits acc [] = Some acc"
| "int_digits acc [c] = (if is_digit c then Some (10 * acc + digit_value c) else None)"
| "int_digits acc (c # d # cs) =
     (if is_digit c then int_digits (10 * acc + digit_value c) (d # cs)
      else if c = CHR ''_'' \<and> is_digit d then int_digits (10 * acc + digit_value d) cs
      else None)"

fun int_magnitude :: "string \<Rightarrow> nat option" where
  "int_magnitude [] = None"
| "int_magnitude (c # cs) = (if is_digit c then int_digits (digit_value c) cs else None)"

fun int_literal :: "string \<Rightarrow> int option" where
  "int_literal [] = None"
| "int_literal (c # cs) =
     (if c = CHR ''-'' then map_option (\<lambda>n. - int n) (int_magnitude cs)
      else if c = CHR ''+'' then map_option int (int_magnitude cs)
      else map_option int (int_magnitude (c # cs)))"

definition py_int :: "string \<Rightarrow> value_error + int" where
  "py_int s = (case int_literal (strip s) of None \<Rightarrow> Inl (ValueError s) | Some i \<Rightarrow> Inr i)"

subsection \<open>\<^verbatim>\<open>base64.b64encode\<close>\<close>

type_synonym bytes = "8 word list"

definition b64_alphabet :: string where
  "b64_alphabet = ''ABCDEFGHIJKLMNOPQRSTUVWXYZabcdefghijklmnopqrstuvwxyz0123456789+/''"

definition b64_char :: "nat \<Rightarrow> char" where
  "b64_char i = b64_alphabet ! (i mod 64)"

text \<open>The four 6-bit groups of a 24-bit number, the most significant first.\<close>

definition sextets :: "nat \<Rightarrow> nat list" where
  "sextets n = [n div 262144 mod 64, n div 4096 mod 64, n div 64 mod 64, n mod 64]"

text \<open>
  Three bytes give four characters; a last group of one or two bytes is filled with
  zero bits and its missing characters are written as \<^verbatim>\<open>=\<close>.
\<close>

fun b64encode :: "bytes \<Rightarrow> string" where
  "b64encode [] = []"
| "b64encode [a] = map b64_char (take 2 (sextets (unat a * 65536))) @ ''==''"
| "b64encode [a, b] =
     map b64_char (take 3 (sextets (unat a * 65536 + unat b * 256))) @ ''=''"
| "b64encode (a # b # c # bs) =
     map b64_char (sextets (unat a * 65536 + unat b * 256 + unat c)) @ b64encode bs"







subsection \<open>The collaborators\<close>

text \<open>
  What \<^verbatim>\<open>requests.get\<close> returns: the fields of the response that the script and
  \<^verbatim>\<open>raise_for_status\<close> read.
\<close>

record response =
  status_code :: int
  reason :: string
  url :: string
  content :: bytes

text \<open>
  \<^verbatim>\<open>Response.raise_for_status()\<close> raises an \<^verbatim>\<open>HTTPError\<close> for a status from 400 to
  599, with a message that names the status, the reason and the address.
\<close>

definition raise_for_status :: "response \<Rightarrow> exn + unit" where
  "raise_for_status r =
     (if 400 \<le> status_code r \<and> status_code r < 500
        then Inl (Raised (int_repr (status_code r) @ '' Client Error: '' @ reason r
                           @ '' for url: '' @ url r))
      else if 500 \<le> status_code r \<and> status_code r < 600
        then Inl (Raised (int_repr (status_code r) @ '' Server Error: '' @ reason r
                           @ '' for url: '' @ url r))
      else Inr ())"

text \<open>
  The HTTP client and the image library are taken as they are: each call either
  returns its result or raises. \<open>'img\<close> is the library's image object.
  \<^item> \<open>requests_get u\<close> is \<^verbatim>\<open>requests.get(u)\<close>;
  \<^item> \<open>Image_open b\<close> is \<^verbatim>\<open>Image.open(BytesIO(b))\<close>;
  \<^item> \<open>Image_resize i (w, h)\<close> is \<^verbatim>\<open>i.resize((w, h))\<close>;
  \<^item> \<open>ImageOps_grayscale i\<close> is \<^verbatim>\<open>ImageOps.grayscale(i)\<close>;
  \<^item> \<open>Image_filter_GaussianBlur i r\<close> is \<^verbatim>\<open>i.filter(ImageFilter.GaussianBlur(radius=r))\<close>;
  \<^item> \<open>Image_save i f\<close> is the content of a fresh buffer after \<^verbatim>\<open>i.save(buffer, format=f)\<close>.
\<close>

record 'img collaborators =
  requests_get :: "string \<Rightarrow> exn + response"
  Image_open :: "bytes \<Rightarrow> exn + 'img"
  Image_resize :: "'img \<Rightarrow> int \<times> int \<Rightarrow> exn + 'img"
  ImageOps_grayscale :: "'img \<Rightarrow> exn + 'img"
  Image_filter_GaussianBlur :: "'img \<Rightarrow> int \<Rightarrow> exn + 'img"
  Image_save :: "'img \<Rightarrow> string \<Rightarrow> exn + bytes"

text \<open>The calls to the collaborators are logged in the order in which they are made.\<close>

datatype call =
    HttpGet string
  | ImageOpen
  | Resize int int
  | Grayscale
  | GaussianBlur int
  | Save string

text \<open>
  One call inside the \<^verbatim>\<open>try\<close> block: it is logged; when it raises, the block is
  left with the exception, and otherwise the rest of the block runs on its result.
\<close>

definition step ::
  "call \<Rightarrow> exn + 'a \<Rightarrow> ('a \<Rightarrow> call list \<times> (exn + 'b)) \<Rightarrow> call list \<times> (exn + 'b)" where
  "step c r k =
     (case r of
        Inl e \<Rightarrow> ([c], Inl e)
      | Inr x \<Rightarrow> (case k x of (cs, y) \<Rightarrow> (c # cs, y)))"

subsection \<open>\<^verbatim>\<open>main()\<close>\<close>

definition default_image_url :: string where
  "default_image_url =
     ''https://plus.unsplash.com/premium_photo-1747135794086-280753a24793?q=80&w=1935&auto=format&fit=crop&ixlib=rb-4.1.0&ixid=M3wxMjA3fDB8MHxwaG90by1wYWdlfHx8fGVufDB8fHx8fA%3D%3D''"

text \<open>
  Lines 23 to 41: download, open, resize, grayscale, blur and save as JPEG. The result
  is the log of the calls made and either the exception that ended the block or the
  bytes of the buffer.
\<close>

definition pipeline ::
  "'img collaborators \<Rightarrow> string \<Rightarrow> int \<Rightarrow> int \<Rightarrow> call list \<times> (exn + bytes)" where
  "pipeline lib image_url width height =
     step (HttpGet image_url) (requests_get lib image_url) (\<lambda>response.
       case raise_for_status response of
         Inl e \<Rightarrow> ([], Inl e)
       | Inr _ \<Rightarrow>
     step ImageOpen (Image_open lib (content response)) (\<lambda>image.
     step (Resize width height) (Image_resize lib image (width, height)) (\<lambda>image.
     step Grayscale (ImageOps_grayscale lib image) (\<lambda>image.
     step (GaussianBlur 2) (Image_filter_GaussianBlur lib image 2) (\<lambda>image.
     step (Save ''JPEG'') (Image_save lib image ''JPEG'') (\<lambda>buffered.
       ([], Inr buffered)))))))"

text \<open>Lines 45 to 54: the response of a run that succeeded.\<close>

definition success_response :: "string \<Rightarrow> string \<Rightarrow> int \<Rightarrow> int \<Rightarrow> json" where
  "success_response image_url img_str width height =
     JObject
       [(''original_url'', JString image_url),
        (''processed_image'', JString img_str),
        (''transformations'', JArray [JString ''resize'', JString ''grayscale'', JString ''blur'']),
        (''dimensions'', JObject [(''width'', JInt width), (''height'', JInt height)]),
        (''status'', JString ''success'')]"

text \<open>Lines 15 to 18 and 60 to 63: the dictionary of a failure.\<close>

definition error_response :: "string \<Rightarrow> json" where
  "error_response msg = JObject [(''error'', JString msg), (''status'', JString ''error'')]"

text \<open>
  What a run of \<^verbatim>\<open>main()\<close> leaves behind: the texts printed, the calls made to the
  collaborators, and the exception that left \<^verbatim>\<open>main()\<close>, if one did.
\<close>

record outcome =
  stdout :: "string list"
  calls :: "call list"
  uncaught :: "value_error option"

text \<open>
  \<^verbatim>\<open>main()\<close>, line by line. The two \<^verbatim>\<open>int(...)\<close> conversions of lines 11 and 12
  stand before the test of the address and before the \<^verbatim>\<open>try\<close> block, so a
  \<^verbatim>\<open>ValueError\<close> of theirs leaves \<^verbatim>\<open>main()\<close>; the handler of line 59 catches what
  the block of lines 22 to 57 raises.
\<close>

definition test_main :: "'img collaborators \<Rightarrow> environ \<Rightarrow> outcome" where
  "test_main lib env =
     (let image_url = environ_get env ''IMAGE_URL'' default_image_url in
      case py_int (environ_get env ''WIDTH'' ''300'') of
        Inl e \<Rightarrow> \<lparr>stdout = [], calls = [], uncaught = Some e\<rparr>
      | Inr width \<Rightarrow>
      (case py_int (environ_get env ''HEIGHT'' ''300'') of
        Inl e \<Rightarrow> \<lparr>stdout = [], calls = [], uncaught = Some e\<rparr>
      | Inr height \<Rightarrow>
        if image_url = [] then
          \<lparr>stdout = [json_dumps None (error_response ''No image URL provided'')],
           calls = [], uncaught = None\<rparr>
        else
          (case pipeline lib image_url width height of
             (cs, Inr buffered) \<Rightarrow>
               \<lparr>stdout =
                  [json_dumps None
                     (success_response image_url (b64encode buffered) width height)],
                calls = cs, uncaught = None\<rparr>
           | (cs, Inl e) \<Rightarrow>
               \<lparr>stdout = [json_dumps None (error_response (str e))],
                calls = cs, uncaught = None\<rparr>)))"

text \<open>
  The script calls \<^verbatim>\<open>main()\<close> under \<^verbatim>\<open>if __name__ == "__main__"\<close> and nothing
  else: an exception that leaves \<^verbatim>\<open>main()\<close> ends the process, the interpreter writes
  its traceback to standard error and the exit status is 1; otherwise standard error
  stays empty and the exit status is 0.
\<close>

definition exit_status :: "outcome \<Rightarrow> nat" where
  "exit_status out = (case uncaught out of None \<Rightarrow> 0 | Some e \<Rightarrow> 1)"

definition traceback_on_stderr :: "outcome \<Rightarrow> bool" where
  "traceback_on_stderr out = (uncaught out \<noteq> None)"


subsection \<open>Sample runs\<close>

text \<open>
  A concrete interpreter and concrete collaborators, on which the scripts are run in the
  examples below. The image of the sample library is its size only; the HTTP client
  answers every request with the given status.
\<close>

definition sample_sys :: sys where
  "sample_sys = \<lparr>version = ''3.11.4 (main, Jun  7 2023, 10:13:09) [GCC 12.2.0]'',
                  platform = ''linux''\<rparr>"

definition sample_jpeg :: bytes where
  "sample_jpeg = [0xFF, 0xD8, 0xFF, 0xE0, 0x00]"

definition sample_lib :: "int \<Rightarrow> (int \<times> int) collaborators" where
  "sample_lib code =
     \<lparr>requests_get = (\<lambda>u. Inr \<lparr>status_code = code,
                                   reason = (if code = 404 then ''Not Found'' else ''OK''),
                                   url = u,
                                   content = [0x89, 0x50, 0x4E, 0x47]\<rparr>),
      Image_open = (\<lambda>b. Inr (640, 480)),
      Image_resize = (\<lambda>i (w, h). if 0 < w \<and> 0 < h then Inr (w, h)
                                 else Inl (Raised ''height and width must be > 0'')),
      ImageOps_grayscale = (\<lambda>i. Inr i),
      Image_filter_GaussianBlur = (\<lambda>i r. Inr i),
      Image_save = (\<lambda>i f. Inr sample_jpeg)\<rparr>"

text \<open>Three environments: a full one, one with a width that is no number, and one with an
  empty address.\<close>

definition sample_url :: string where
  "sample_url = ''http://example.org/a.png''"

definition sample_environ :: environ where
  "sample_environ = [''IMAGE_URL'' \<mapsto> sample_url, ''WIDTH'' \<mapsto> ''100'', ''HEIGHT'' \<mapsto> ''150'']"

definition bad_width_environ :: environ where
  "bad_width_environ = [''IMAGE_URL'' \<mapsto> [], ''WIDTH'' \<mapsto> ''abc'']"

definition empty_url_environ :: environ where
  "empty_url_environ = [''IMAGE_URL'' \<mapsto> []]"


section \<open>Base64: decoding what was encoded\<close>

























section \<open>Facts about the two scripts\<close>

subsection \<open>Texts that the encoder writes\<close>

text \<open>
  The keys and the fixed values of the dictionaries hold no character that the encoder
  escapes, so each is written between two quotes as it is.
\<close>

lemma encoded_greeter_literals: \<open>encode_basestring_ascii ''message'' = ''"message"''\<close>
  \<open>encode_basestring_ascii ''timestamp'' = ''"timestamp"''\<close>
  \<open>encode_basestring_ascii ''environment'' = ''"environment"''\<close>
  \<open>encode_basestring_ascii ''python_version'' = ''"python_version"''\<close>
  \<open>encode_basestring_ascii ''platform'' = ''"platform"''\<close>
  \<open>encode_basestring_ascii ''2023-01-16T12:34:56Z'' = ''"2023-01-16T12:34:56Z"''\<close>
  by (simp_all add: encode_basestring_ascii_def escape_char_def)

lemma encoded_error_literals: \<open>encode_basestring_ascii ''error'' = ''"error"''\<close>
  \<open>encode_basestring_ascii ''status'' = ''"status"''\<close>
  \<open>encode_basestring_ascii ''No image URL provided'' = ''"No image URL provided"''\<close>
  by (simp_all add: encode_basestring_ascii_def escape_char_def)

lemma encoded_success_literals: \<open>encode_basestring_ascii ''original_url'' = ''"original_url"''\<close>
  \<open>encode_basestring_ascii ''processed_image'' = ''"processed_image"''\<close>
  \<open>encode_basestring_ascii ''transformations'' = ''"transformations"''\<close>
  \<open>encode_basestring_ascii ''resize'' = ''"resize"''\<close>
  \<open>encode_basestring_ascii ''grayscale'' = ''"grayscale"''\<close>
  \<open>encode_basestring_ascii ''blur'' = ''"blur"''\<close>
  \<open>encode_basestring_ascii ''dimensions'' = ''"dimensions"''\<close>
  \<open>encode_basestring_ascii ''width'' = ''"width"''\<close>
  \<open>encode_basestring_ascii ''height'' = ''"height"''\<close>
  \<open>encode_basestring_ascii ''success'' = ''"success"''\<close>
  by (simp_all add: encode_basestring_ascii_def escape_char_def)

lemma indent_2: "replicate 2 c = [c, c]" "replicate 4 c = [c, c, c, c]"
  by (simp_all add: eval_nat_numeral)

lemma error_response_text: \<open>
  json_dumps None (error_response msg)
    = ''{"error": '' @ encode_basestring_ascii msg @ '', "status": "error"}''\<close>
  by (simp add: json_dumps_def error_response_def encoded_error_literals)

lemma success_response_text: \<open>
  json_dumps None (success_response image_url img_str width height)
    = ''{"original_url": '' @ encode_basestring_ascii image_url
      @ '', "processed_image": '' @ encode_basestring_ascii img_str
      @ '', "transformations": ["resize", "grayscale", "blur"]''
      @ '', "dimensions": {"width": '' @ int_repr width @ '', "height": '' @ int_repr height
      @ ''}, "status": "success"}''\<close>
  by (simp add: json_dumps_def success_response_def encoded_error_literals
      encoded_success_literals)

subsection \<open>The branches of the image processor\<close>

text \<open>
  When both numbers are accepted, \<^verbatim>\<open>main()\<close> reaches the test of the address and,
  behind it, the \<^verbatim>\<open>try\<close> block; when one is rejected, nothing has been printed.
\<close>

lemma test_main_parsed:
  assumes "py_int (environ_get env ''WIDTH'' ''300'') = Inr width"
    and "py_int (environ_get env ''HEIGHT'' ''300'') = Inr height"
  shows "test_main lib env =
     (if environ_get env ''IMAGE_URL'' default_image_url = [] then
        \<lparr>stdout = [json_dumps None (error_response ''No image URL provided'')],
         calls = [], uncaught = None\<rparr>
      else
        (case pipeline lib (environ_get env ''IMAGE_URL'' default_image_url) width height of
           (cs, Inr buffered) \<Rightarrow>
             \<lparr>stdout =
                [json_dumps None
                   (success_response (environ_get env ''IMAGE_URL'' default_image_url)
                      (b64encode buffered) width height)],
              calls = cs, uncaught = None\<rparr>
         | (cs, Inl e) \<Rightarrow>
             \<lparr>stdout = [json_dumps None (error_response (str e))],
              calls = cs, uncaught = None\<rparr>))"
  using assms by (simp add: test_main_def Let_def)

lemma test_main_width_rejected:
  assumes "py_int (environ_get env ''WIDTH'' ''300'') = Inl e"
  shows "test_main lib env = \<lparr>stdout = [], calls = [], uncaught = Some e\<rparr>"
  using assms by (simp add: test_main_def Let_def)

lemma test_main_height_rejected:
  assumes "py_int (environ_get env ''WIDTH'' ''300'') = Inr width"
    and "py_int (environ_get env ''HEIGHT'' ''300'') = Inl e"
  shows "test_main lib env = \<lparr>stdout = [], calls = [], uncaught = Some e\<rparr>"
  using assms by (simp add: test_main_def Let_def)

text \<open>
  A \<^verbatim>\<open>try\<close> block that ends without an exception has made all six calls in their
  order, each on the result of the one before.
\<close>

lemma pipeline_success:
  assumes "pipeline lib u w h = (cs, Inr jpeg)"
  shows "cs = [HttpGet u, ImageOpen, Resize w h, Grayscale, GaussianBlur 2, Save ''JPEG'']
    \<and> (\<exists>r i0 i1 i2 i3.
          requests_get lib u = Inr r \<and> raise_for_status r = Inr ()
        \<and> Image_open lib (content r) = Inr i0
        \<and> Image_resize lib i0 (w, h) = Inr i1
        \<and> ImageOps_grayscale lib i1 = Inr i2
        \<and> Image_filter_GaussianBlur lib i2 2 = Inr i3
        \<and> Image_save lib i3 ''JPEG'' = Inr jpeg)"
  using assms by (auto simp: pipeline_def step_def split: sum.splits prod.splits)

subsection \<open>The sample runs, evaluated\<close>

lemma sample_environ_values:
  "environ_get sample_environ ''IMAGE_URL'' default_image_url = sample_url"
  "py_int (environ_get sample_environ ''WIDTH'' ''300'') = Inr 100"
  "py_int (environ_get sample_environ ''HEIGHT'' ''300'') = Inr 150"
  "sample_url \<noteq> []"
  by (simp_all add: sample_environ_def sample_url_def environ_get_def py_int_def strip_def
      is_space_def is_digit_def digit_value_def)

lemma bad_width_environ_values:
  "environ_get bad_width_environ ''IMAGE_URL'' default_image_url = []"
  "py_int (environ_get bad_width_environ ''WIDTH'' ''300'') = Inl (ValueError ''abc'')"
  "py_int (environ_get bad_width_environ ''HEIGHT'' ''300'') = Inr 300"
  by (simp_all add: bad_width_environ_def environ_get_def py_int_def strip_def
      is_space_def is_digit_def digit_value_def)

lemma empty_url_environ_values:
  "environ_get empty_url_environ ''IMAGE_URL'' default_image_url = []"
  "py_int (environ_get empty_url_environ ''WIDTH'' ''300'') = Inr 300"
  "py_int (environ_get empty_url_environ ''HEIGHT'' ''300'') = Inr 300"
  by (simp_all add: empty_url_environ_def environ_get_def py_int_def strip_def
      is_space_def is_digit_def digit_value_def)

lemma sample_pipeline_200:
  "pipeline (sample_lib 200) sample_url 100 150
     = ([HttpGet sample_url, ImageOpen, Resize 100 150, Grayscale, GaussianBlur 2,
         Save ''JPEG''], Inr sample_jpeg)"
  by (simp add: pipeline_def step_def sample_lib_def raise_for_status_def)

lemma int_repr_404: "int_repr 404 = ''404''"
  by code_simp

lemma sample_pipeline_404:
  "pipeline (sample_lib 404) sample_url 100 150
     = ([HttpGet sample_url],
        Inl (Raised (''404 Client Error: Not Found for url: '' @ sample_url)))"
  by (simp add: pipeline_def step_def sample_lib_def raise_for_status_def int_repr_404)

lemma b64encode_sample_jpeg: "b64encode sample_jpeg = ''/9j/4AA=''"
  by (simp add: sample_jpeg_def sextets_def b64_char_def b64_alphabet_def)

lemma int_repr_sample: "int_repr 100 = ''100''" "int_repr 150 = ''150''"
  by code_simp+

lemma encoded_sample_literals: \<open>encode_basestring_ascii sample_url = ''"http://example.org/a.png"''\<close>
  \<open>encode_basestring_ascii ''/9j/4AA='' = ''"/9j/4AA="''\<close>
  by (simp_all add: encode_basestring_ascii_def escape_char_def sample_url_def)


section \<open>The greeter\<close>

text \<open>
  Claim C3, as the code has it. The message is \<^verbatim>\<open>"Hello, " + n + "!"\<close> where \<open>n\<close>
  is the value of \<^verbatim>\<open>NAME\<close> whenever the variable is set, the empty text included;
  when the variable is not set, the message is \<^verbatim>\<open>"Hello, World!"\<close>. The text
  printed is the encoding of the dictionary that holds this message.
\<close>

theorem C3_greeter_message:
  "obj_get (snd (greeter_main sy env)) ''message''
     = Some (JString (''Hello, '' @ (case env ''NAME'' of None \<Rightarrow> ''World'' | Some n \<Rightarrow> n) @ ''!''))
   \<and> fst (greeter_main sy env) = [json_dumps (Some 2) (snd (greeter_main sy env))]"
  by (simp add: greeter_main_def greeter_response_def greeter_message_def environ_get_def)

text \<open>
  Claim C3 as the specification words it asks for \<^verbatim>\<open>"Hello, World!"\<close> when \<^verbatim>\<open>NAME\<close>
  is set to the empty text. There the script greets nobody: the message is
  \<^verbatim>\<open>"Hello, !"\<close>.
\<close>

theorem C3_counterexample:
  "obj_get (snd (greeter_main sample_sys [''NAME'' \<mapsto> []])) ''message''
     = Some (JString ''Hello, !'')
   \<and> obj_get (snd (greeter_main sample_sys [''NAME'' \<mapsto> []])) ''message''
     \<noteq> Some (JString ''Hello, World!'')
   \<and> fst (greeter_main sample_sys [''NAME'' \<mapsto> []])
     = [json_dumps (Some 2) (snd (greeter_main sample_sys [''NAME'' \<mapsto> []]))]"
  by (simp add: greeter_main_def greeter_response_def greeter_message_def environ_get_def)

text \<open>
  Claim C4, as the code has it. For every environment the greeter prints one text, the
  encoding with \<^verbatim>\<open>indent=2\<close> of a dictionary whose keys are \<^verbatim>\<open>message\<close>,
  \<^verbatim>\<open>timestamp\<close> and \<^verbatim>\<open>environment\<close>; the keys of \<^verbatim>\<open>environment\<close> are
  \<^verbatim>\<open>python_version\<close> and \<^verbatim>\<open>platform\<close>; the timestamp is the fixed text
  \<^verbatim>\<open>2023-01-16T12:34:56Z\<close>, a literal of the script, which reads no clock. The
  last equation spells the printed text out: one item per line, two spaces of
  indentation per level.
\<close>

theorem C4_greeter_output: \<open>
  fst (greeter_main sy env) = [json_dumps (Some 2) (snd (greeter_main sy env))]
  \<and> obj_keys (snd (greeter_main sy env)) = [''message'', ''timestamp'', ''environment'']
  \<and> map_option obj_keys (obj_path (snd (greeter_main sy env)) [''environment''])
      = Some [''python_version'', ''platform'']
  \<and> obj_get (snd (greeter_main sy env)) ''timestamp'' = Some (JString ''2023-01-16T12:34:56Z'')
  \<and> json_dumps (Some 2) (snd (greeter_main sy env))
      = ''{'' @ [CHR 0x0A]
        @ ''  "message": '' @ encode_basestring_ascii (greeter_message env) @ '','' @ [CHR 0x0A]
        @ ''  "timestamp": "2023-01-16T12:34:56Z",'' @ [CHR 0x0A]
        @ ''  "environment": {'' @ [CHR 0x0A]
        @ ''    "python_version": '' @ encode_basestring_ascii (version sy) @ '','' @ [CHR 0x0A]
        @ ''    "platform": '' @ encode_basestring_ascii (platform sy) @ [CHR 0x0A]
        @ ''  }'' @ [CHR 0x0A]
        @ ''}''\<close>
  by (simp add: greeter_main_def greeter_response_def json_dumps_def
      encoded_greeter_literals indent_2)

text \<open>
  Claim C4 as the specification words it names the first key of \<^verbatim>\<open>environment\<close>
  \<^verbatim>\<open>runtime_version\<close>. The dictionary has no such key; its keys are
  \<^verbatim>\<open>python_version\<close> and \<^verbatim>\<open>platform\<close>.
\<close>

theorem C4_counterexample:
  "obj_path (snd (greeter_main sample_sys Map.empty)) [''environment'', ''runtime_version'']
     = None
   \<and> map_option obj_keys (obj_path (snd (greeter_main sample_sys Map.empty)) [''environment''])
     = Some [''python_version'', ''platform'']
   \<and> fst (greeter_main sample_sys Map.empty)
     = [json_dumps (Some 2) (snd (greeter_main sample_sys Map.empty))]"
  by (simp add: greeter_main_def greeter_response_def)


section \<open>The image processor\<close>

text \<open>
  Claim C1 says that a width or height that is no number ends in a JSON error object on
  standard output. The code converts both numbers in lines 11 and 12, before the
  \<^verbatim>\<open>try\<close> block, so the handler of line 59 never sees the \<^verbatim>\<open>ValueError\<close>. What the
  code does: when \<^verbatim>\<open>int()\<close> rejects the width, or accepts the width and rejects the
  height, nothing is printed and no collaborator is called; the exception leaves
  \<^verbatim>\<open>main()\<close>, the traceback goes to standard error and the exit status is 1.
\<close>

theorem C1_rejected_number_leaves_main:
  assumes "py_int (environ_get env ''WIDTH'' ''300'') = Inl e
         \<or> (\<exists>width. py_int (environ_get env ''WIDTH'' ''300'') = Inr width)
           \<and> py_int (environ_get env ''HEIGHT'' ''300'') = Inl e"
  shows "test_main lib env = \<lparr>stdout = [], calls = [], uncaught = Some e\<rparr>
       \<and> exit_status (test_main lib env) = 1
       \<and> traceback_on_stderr (test_main lib env)"
  using assms
  by (auto simp: test_main_width_rejected test_main_height_rejected exit_status_def
      traceback_on_stderr_def)

text \<open>The run with \<^verbatim>\<open>WIDTH=abc\<close>.\<close>

theorem C1_witness:
  "py_int (environ_get bad_width_environ ''WIDTH'' ''300'') = Inl (ValueError ''abc'')
   \<and> test_main (sample_lib 200) bad_width_environ
       = \<lparr>stdout = [], calls = [], uncaught = Some (ValueError ''abc'')\<rparr>
   \<and> exit_status (test_main (sample_lib 200) bad_width_environ) = 1"
  using C1_rejected_number_leaves_main
    [of bad_width_environ "ValueError ''abc''" "sample_lib 200"]
    bad_width_environ_values
  by (simp add: exit_status_def)

text \<open>
  Claim C2 says that every run prints exactly one JSON object. The run with
  \<^verbatim>\<open>HEIGHT=12px\<close> prints none: standard output stays empty and the
  \<^verbatim>\<open>ValueError\<close> leaves \<^verbatim>\<open>main()\<close>.
\<close>

theorem C2_nothing_printed:
  "stdout (test_main (sample_lib 200) [''HEIGHT'' \<mapsto> ''12px'']) = []
   \<and> length (stdout (test_main (sample_lib 200) [''HEIGHT'' \<mapsto> ''12px''])) \<noteq> 1
   \<and> uncaught (test_main (sample_lib 200) [''HEIGHT'' \<mapsto> ''12px''])
       = Some (ValueError ''12px'')"
  by (simp add: test_main_def environ_get_def py_int_def strip_def is_space_def is_digit_def
      digit_value_def Let_def)

text \<open>
  Claim C5. Let both numbers be accepted and the address be non-empty, and let the
  \<^verbatim>\<open>try\<close> block end with the exception \<open>e\<close> (raised by the download, the status
  check, the decoding, the resize, the grayscale conversion, the blur or the JPEG
  encoding). Then exactly one text is printed, the encoding of a dictionary with the
  two keys \<^verbatim>\<open>error\<close> and \<^verbatim>\<open>status\<close>, bound to \<^verbatim>\<open>str(e)\<close> and to
  \<^verbatim>\<open>"error"\<close>; it has no key \<^verbatim>\<open>processed_image\<close>; no exception leaves
  \<^verbatim>\<open>main()\<close>, so the exit status is 0 and standard error stays empty.
\<close>

theorem C5_exception_becomes_error_object:
  assumes "py_int (environ_get env ''WIDTH'' ''300'') = Inr width"
    and "py_int (environ_get env ''HEIGHT'' ''300'') = Inr height"
    and "environ_get env ''IMAGE_URL'' default_image_url = image_url"
    and "image_url \<noteq> []"
    and "pipeline lib image_url width height = (cs, Inl e)"
  shows "stdout (test_main lib env) = [json_dumps None (error_response (str e))]
    \<and> obj_keys (error_response (str e)) = [''error'', ''status'']
    \<and> obj_get (error_response (str e)) ''error'' = Some (JString (str e))
    \<and> obj_get (error_response (str e)) ''status'' = Some (JString ''error'')
    \<and> obj_get (error_response (str e)) ''processed_image'' = None
    \<and> uncaught (test_main lib env) = None
    \<and> exit_status (test_main lib env) = 0
    \<and> \<not> traceback_on_stderr (test_main lib env)"
  using assms(3-5)
  by (simp add: test_main_parsed [OF assms(1,2)] error_response_def exit_status_def
      traceback_on_stderr_def)

text \<open>The run against a server that answers 404.\<close>

theorem C5_witness:
  "py_int (environ_get sample_environ ''WIDTH'' ''300'') = Inr 100
   \<and> py_int (environ_get sample_environ ''HEIGHT'' ''300'') = Inr 150
   \<and> environ_get sample_environ ''IMAGE_URL'' default_image_url = sample_url
   \<and> sample_url \<noteq> []
   \<and> pipeline (sample_lib 404) sample_url 100 150
       = ([HttpGet sample_url],
          Inl (Raised (''404 Client Error: Not Found for url: '' @ sample_url)))
   \<and> stdout (test_main (sample_lib 404) sample_environ)
       = [json_dumps None
            (error_response (''404 Client Error: Not Found for url: '' @ sample_url))]
   \<and> obj_get (error_response (''404 Client Error: Not Found for url: '' @ sample_url))
         ''processed_image'' = None
   \<and> exit_status (test_main (sample_lib 404) sample_environ) = 0"
  using C5_exception_becomes_error_object
    [OF sample_environ_values(2) sample_environ_values(3) sample_environ_values(1)
        sample_environ_values(4) sample_pipeline_404]
    sample_environ_values sample_pipeline_404
  by simp

text \<open>
  Claim C6. Let both numbers be accepted, the address be non-empty and the \<^verbatim>\<open>try\<close>
  block end with the JPEG bytes. Then exactly one text is printed: the compact encoding
  of the dictionary with \<^verbatim>\<open>original_url\<close> bound to the address read from the
  environment, \<^verbatim>\<open>processed_image\<close> to the Base64 text of the bytes,
  \<^verbatim>\<open>transformations\<close> to the list \<^verbatim>\<open>resize\<close>, \<^verbatim>\<open>grayscale\<close>, \<^verbatim>\<open>blur\<close> in
  this order, \<^verbatim>\<open>dimensions\<close> to the width and height as converted, and \<^verbatim>\<open>status\<close>
  to \<^verbatim>\<open>"success"\<close>. The second equation spells the text out: one line, items
  separated by a comma and a space.
\<close>

theorem C6_success_output: \<open>
  py_int (environ_get env ''WIDTH'' ''300'') = Inr width \<Longrightarrow>
  py_int (environ_get env ''HEIGHT'' ''300'') = Inr height \<Longrightarrow>
  environ_get env ''IMAGE_URL'' default_image_url = image_url \<Longrightarrow>
  image_url \<noteq> [] \<Longrightarrow>
  pipeline lib image_url width height = (cs, Inr jpeg) \<Longrightarrow>
  stdout (test_main lib env)
    = [json_dumps None
        (JObject
          [(''original_url'', JString image_url),
           (''processed_image'', JString (b64encode jpeg)),
           (''transformations'',
              JArray [JString ''resize'', JString ''grayscale'', JString ''blur'']),
           (''dimensions'', JObject [(''width'', JInt width), (''height'', JInt height)]),
           (''status'', JString ''success'')])]
  \<and> stdout (test_main lib env)
    = [''{"original_url": '' @ encode_basestring_ascii image_url
       @ '', "processed_image": '' @ encode_basestring_ascii (b64encode jpeg)
       @ '', "transformations": ["resize", "grayscale", "blur"]''
       @ '', "dimensions": {"width": '' @ int_repr width @ '', "height": '' @ int_repr height
       @ ''}, "status": "success"}'']
  \<and> uncaught (test_main lib env) = None\<close>
proof -
  assume W: "py_int (environ_get env ''WIDTH'' ''300'') = Inr width"
    and H: "py_int (environ_get env ''HEIGHT'' ''300'') = Inr height"
    and U: "environ_get env ''IMAGE_URL'' default_image_url = image_url" "image_url \<noteq> []"
    and P: "pipeline lib image_url width height = (cs, Inr jpeg)"
  have out: "stdout (test_main lib env)
      = [json_dumps None (success_response image_url (b64encode jpeg) width height)]"
    and un: "uncaught (test_main lib env) = None"
    using U P by (simp_all add: test_main_parsed [OF W H])
  show ?thesis
  proof (intro conjI)
    show "stdout (test_main lib env)
      = [json_dumps None
          (JObject
            [(''original_url'', JString image_url),
             (''processed_image'', JString (b64encode jpeg)),
             (''transformations'',
                JArray [JString ''resize'', JString ''grayscale'', JString ''blur'']),
             (''dimensions'', JObject [(''width'', JInt width), (''height'', JInt height)]),
             (''status'', JString ''success'')])]"
      using out by (simp only: success_response_def)
  next
    show \<open>stdout (test_main lib env)
      = [''{"original_url": '' @ encode_basestring_ascii image_url
         @ '', "processed_image": '' @ encode_basestring_ascii (b64encode jpeg)
         @ '', "transformations": ["resize", "grayscale", "blur"]''
         @ '', "dimensions": {"width": '' @ int_repr width @ '', "height": '' @ int_repr height
         @ ''}, "status": "success"}'']\<close>
      using out by (simp only: success_response_text)
  next
    show "uncaught (test_main lib env) = None" by (rule un)
  qed
qed

text \<open>The run with \<^verbatim>\<open>WIDTH=100\<close> and \<^verbatim>\<open>HEIGHT=150\<close>, and the line it prints.\<close>

theorem C6_witness: \<open>
  py_int (environ_get sample_environ ''WIDTH'' ''300'') = Inr 100
  \<and> py_int (environ_get sample_environ ''HEIGHT'' ''300'') = Inr 150
  \<and> environ_get sample_environ ''IMAGE_URL'' default_image_url = sample_url
  \<and> sample_url \<noteq> []
  \<and> pipeline (sample_lib 200) sample_url 100 150
      = ([HttpGet sample_url, ImageOpen, Resize 100 150, Grayscale, GaussianBlur 2,
          Save ''JPEG''], Inr sample_jpeg)
  \<and> stdout (test_main (sample_lib 200) sample_environ)
      = [''{"original_url": "http://example.org/a.png", "processed_image": "/9j/4AA=", "transformations": ["resize", "grayscale", "blur"], "dimensions": {"width": 100, "height": 150}, "status": "success"}'']\<close>
  using C6_success_output
    [OF sample_environ_values(2) sample_environ_values(3) sample_environ_values(1)
        sample_environ_values(4) sample_pipeline_200, THEN conjunct2, THEN conjunct1]
    sample_environ_values sample_pipeline_200
  by (simp add: b64encode_sample_jpeg int_repr_sample encoded_sample_literals)

text \<open>
  Claim C7. In a run that succeeds, the collaborators are called in this order and
  none is left out: the download of the address, the decoding of the body, the resize
  to the pair (width, height) as converted, the grayscale conversion, the Gaussian blur
  with radius 2, and the saving as JPEG; each works on the result of the one before, and
  \<^verbatim>\<open>processed_image\<close> is the Base64 text of the bytes saved.
\<close>

theorem C7_pipeline_order:
  assumes "py_int (environ_get env ''WIDTH'' ''300'') = Inr width"
    and "py_int (environ_get env ''HEIGHT'' ''300'') = Inr height"
    and "environ_get env ''IMAGE_URL'' default_image_url = image_url"
    and "image_url \<noteq> []"
    and "pipeline lib image_url width height = (cs, Inr jpeg)"
  shows "calls (test_main lib env)
      = [HttpGet image_url, ImageOpen, Resize width height, Grayscale, GaussianBlur 2,
         Save ''JPEG'']
    \<and> (\<exists>r i0 i1 i2 i3.
          requests_get lib image_url = Inr r \<and> raise_for_status r = Inr ()
        \<and> Image_open lib (content r) = Inr i0
        \<and> Image_resize lib i0 (width, height) = Inr i1
        \<and> ImageOps_grayscale lib i1 = Inr i2
        \<and> Image_filter_GaussianBlur lib i2 2 = Inr i3
        \<and> Image_save lib i3 ''JPEG'' = Inr jpeg)
    \<and> stdout (test_main lib env)
      = [json_dumps None (success_response image_url (b64encode jpeg) width height)]
    \<and> obj_get (success_response image_url (b64encode jpeg) width height) ''processed_image''
      = Some (JString (b64encode jpeg))"
proof -
  have "calls (test_main lib env) = cs"
    and "stdout (test_main lib env)
      = [json_dumps None (success_response image_url (b64encode jpeg) width height)]"
    using assms(3-5) by (simp_all add: test_main_parsed [OF assms(1,2)])
  moreover note pipeline_success [OF assms(5)]
  moreover have "obj_get (success_response image_url (b64encode jpeg) width height)
      ''processed_image'' = Some (JString (b64encode jpeg))"
    by (simp add: success_response_def)
  ultimately show ?thesis by simp
qed

text \<open>The calls of the run with \<^verbatim>\<open>WIDTH=100\<close> and \<^verbatim>\<open>HEIGHT=150\<close>.\<close>

theorem C7_witness:
  "py_int (environ_get sample_environ ''WIDTH'' ''300'') = Inr 100
  \<and> py_int (environ_get sample_environ ''HEIGHT'' ''300'') = Inr 150
  \<and> environ_get sample_environ ''IMAGE_URL'' default_image_url = sample_url
  \<and> sample_url \<noteq> []
  \<and> pipeline (sample_lib 200) sample_url 100 150
      = ([HttpGet sample_url, ImageOpen, Resize 100 150, Grayscale, GaussianBlur 2,
          Save ''JPEG''], Inr sample_jpeg)
  \<and> calls (test_main (sample_lib 200) sample_environ)
      = [HttpGet sample_url, ImageOpen, Resize 100 150, Grayscale, GaussianBlur 2,
         Save ''JPEG'']"
  using C7_pipeline_order
    [OF sample_environ_values(2) sample_environ_values(3) sample_environ_values(1)
        sample_environ_values(4) sample_pipeline_200]
    sample_environ_values sample_pipeline_200
  by simp

text \<open>
  Claim C8. When the address read from the environment is empty and both numbers are
  accepted, \<^verbatim>\<open>main()\<close> prints exactly the error object with the message
  \<^verbatim>\<open>No image URL provided\<close>, calls no collaborator (so nothing is downloaded) and
  returns.
\<close>

theorem C8_empty_url: \<open>
  environ_get env ''IMAGE_URL'' default_image_url = [] \<Longrightarrow>
  py_int (environ_get env ''WIDTH'' ''300'') = Inr width \<Longrightarrow>
  py_int (environ_get env ''HEIGHT'' ''300'') = Inr height \<Longrightarrow>
  test_main lib env
    = \<lparr>stdout = [''{"error": "No image URL provided", "status": "error"}''],
       calls = [], uncaught = None\<rparr>
  \<and> json_dumps None
       (JObject [(''error'', JString ''No image URL provided''), (''status'', JString ''error'')])
    = ''{"error": "No image URL provided", "status": "error"}''\<close>
proof -
  assume U: "environ_get env ''IMAGE_URL'' default_image_url = []"
    and W: "py_int (environ_get env ''WIDTH'' ''300'') = Inr width"
    and H: "py_int (environ_get env ''HEIGHT'' ''300'') = Inr height"
  have t: \<open>json_dumps None (error_response ''No image URL provided'')
      = ''{"error": "No image URL provided", "status": "error"}''\<close>
    by (simp add: error_response_text encoded_error_literals)
  have "test_main lib env
      = \<lparr>stdout = [json_dumps None (error_response ''No image URL provided'')],
         calls = [], uncaught = None\<rparr>"
    using U by (simp add: test_main_parsed [OF W H])
  with t show ?thesis
    by (simp add: error_response_def)
qed

text \<open>The run with \<^verbatim>\<open>IMAGE_URL\<close> set to the empty text.\<close>

theorem C8_witness: \<open>
  environ_get empty_url_environ ''IMAGE_URL'' default_image_url = []
  \<and> py_int (environ_get empty_url_environ ''WIDTH'' ''300'') = Inr 300
  \<and> py_int (environ_get empty_url_environ ''HEIGHT'' ''300'') = Inr 300
  \<and> test_main (sample_lib 200) empty_url_environ
    = \<lparr>stdout = [''{"error": "No image URL provided", "status": "error"}''],
       calls = [], uncaught = None\<rparr>\<close>
  using C8_empty_url [OF empty_url_environ_values, of "sample_lib 200"]
    empty_url_environ_values
  by simp



text \<open>
  Claim C10. The two numbers are converted before the address is tested. With an empty
  address and a width or height that \<^verbatim>\<open>int()\<close> rejects, nothing at all is printed
  (so the object with \<^verbatim>\<open>No image URL provided\<close> is not) and the exception leaves
  \<^verbatim>\<open>main()\<close>; and whenever anything is printed, both numbers were accepted.
\<close>

theorem C10_numbers_before_address:
  "(environ_get env ''IMAGE_URL'' default_image_url = []
      \<and> (py_int (environ_get env ''WIDTH'' ''300'') = Inl e
         \<or> py_int (environ_get env ''HEIGHT'' ''300'') = Inl e')
    \<longrightarrow> stdout (test_main lib env) = [] \<and> calls (test_main lib env) = []
        \<and> uncaught (test_main lib env) \<noteq> None)
   \<and> (stdout (test_main lib env) \<noteq> []
    \<longrightarrow> (\<exists>width height.
          py_int (environ_get env ''WIDTH'' ''300'') = Inr width
        \<and> py_int (environ_get env ''HEIGHT'' ''300'') = Inr height))"
  by (cases "py_int (environ_get env ''WIDTH'' ''300'')";
      cases "py_int (environ_get env ''HEIGHT'' ''300'')")
    (simp_all add: test_main_width_rejected test_main_height_rejected)

text \<open>
  The run with an empty address and \<^verbatim>\<open>WIDTH=abc\<close> prints nothing; the run with an
  empty address alone prints.
\<close>

theorem C10_witness:
  "environ_get bad_width_environ ''IMAGE_URL'' default_image_url = []
   \<and> py_int (environ_get bad_width_environ ''WIDTH'' ''300'') = Inl (ValueError ''abc'')
   \<and> stdout (test_main (sample_lib 200) bad_width_environ) = []
   \<and> calls (test_main (sample_lib 200) bad_width_environ) = []
   \<and> uncaught (test_main (sample_lib 200) bad_width_environ) \<noteq> None
   \<and> stdout (test_main (sample_lib 200) empty_url_environ) \<noteq> []
   \<and> py_int (environ_get empty_url_environ ''WIDTH'' ''300'') = Inr 300
   \<and> py_int (environ_get empty_url_environ ''HEIGHT'' ''300'') = Inr 300"
  using C10_numbers_before_address
      [of bad_width_environ "ValueError ''abc''" "ValueError ''abc''" "sample_lib 200"]
    C10_numbers_before_address
      [of empty_url_environ "ValueError ''abc''" "ValueError ''abc''" "sample_lib 200"]
    bad_width_environ_values empty_url_environ_values
    test_main_parsed [OF empty_url_environ_values(2,3), of "sample_lib 200"]
  by simp


section \<open>Further facts\<close>

text \<open>
  When both numbers are accepted, exactly one object is printed and no exception
  leaves \<^verbatim>\<open>main()\<close>; the status of the object is \<^verbatim>\<open>"success"\<close> or \<^verbatim>\<open>"error"\<close>,
  and it is \<^verbatim>\<open>"success"\<close> exactly when the address is non-empty and the \<^verbatim>\<open>try\<close>
  block ends without an exception.
\<close>

theorem one_object_when_numbers_parse:
  assumes "py_int (environ_get env ''WIDTH'' ''300'') = Inr width"
    and "py_int (environ_get env ''HEIGHT'' ''300'') = Inr height"
  shows "\<exists>obj. stdout (test_main lib env) = [json_dumps None obj]
      \<and> uncaught (test_main lib env) = None
      \<and> (obj_get obj ''status'' = Some (JString ''success'') \<or>
           obj_get obj ''status'' = Some (JString ''error''))
      \<and> (obj_get obj ''status'' = Some (JString ''success'') \<longleftrightarrow>
           environ_get env ''IMAGE_URL'' default_image_url \<noteq> [] \<and>
           (\<exists>jpeg. snd (pipeline lib (environ_get env ''IMAGE_URL'' default_image_url)
                          width height) = Inr jpeg))"
  by (auto simp: test_main_parsed [OF assms] success_response_def error_response_def
      split: prod.splits sum.splits)

text \<open>The run with \<^verbatim>\<open>WIDTH=100\<close> and \<^verbatim>\<open>HEIGHT=150\<close> prints one object.\<close>

theorem one_object_witness:
  "py_int (environ_get sample_environ ''WIDTH'' ''300'') = Inr 100
  \<and> py_int (environ_get sample_environ ''HEIGHT'' ''300'') = Inr 150
  \<and> (\<exists>obj. stdout (test_main (sample_lib 200) sample_environ) = [json_dumps None obj]
      \<and> uncaught (test_main (sample_lib 200) sample_environ) = None
      \<and> obj_get obj ''status'' = Some (JString ''success''))"
proof -
  from one_object_when_numbers_parse
    [OF sample_environ_values(2) sample_environ_values(3), of "sample_lib 200"]
  obtain obj where "stdout (test_main (sample_lib 200) sample_environ) = [json_dumps None obj]"
    and "uncaught (test_main (sample_lib 200) sample_environ) = None"
    and "obj_get obj ''status'' = Some (JString ''success'') \<longleftrightarrow>
           environ_get sample_environ ''IMAGE_URL'' default_image_url \<noteq> [] \<and>
           (\<exists>jpeg. snd (pipeline (sample_lib 200)
                          (environ_get sample_environ ''IMAGE_URL'' default_image_url)
                          100 150) = Inr jpeg)"
    by blast
  then show ?thesis
    using sample_environ_values sample_pipeline_200 by auto
qed

text \<open>
  The \<^verbatim>\<open>try\<close> block ends with the exception \<open>e\<close> exactly when one of its calls
  raises \<open>e\<close> after all the calls before it have returned.
\<close>

theorem try_block_raises_iff:
  "snd (pipeline lib u w h) = Inl e \<longleftrightarrow>
     requests_get lib u = Inl e
   \<or> (\<exists>r. requests_get lib u = Inr r \<and>
        (raise_for_status r = Inl e
       \<or> raise_for_status r = Inr () \<and>
          (Image_open lib (content r) = Inl e
         \<or> (\<exists>i0. Image_open lib (content r) = Inr i0 \<and>
              (Image_resize lib i0 (w, h) = Inl e
             \<or> (\<exists>i1. Image_resize lib i0 (w, h) = Inr i1 \<and>
                  (ImageOps_grayscale lib i1 = Inl e
                 \<or> (\<exists>i2. ImageOps_grayscale lib i1 = Inr i2 \<and>
                      (Image_filter_GaussianBlur lib i2 2 = Inl e
                     \<or> (\<exists>i3. Image_filter_GaussianBlur lib i2 2 = Inr i3 \<and>
                          Image_save lib i3 ''JPEG'' = Inl e))))))))))"
  by (auto simp: pipeline_def step_def split: sum.splits prod.splits)

text \<open>
  The default address is not empty, so the address read from the environment is empty
  exactly when \<^verbatim>\<open>IMAGE_URL\<close> is set to the empty text.
\<close>

theorem resolved_url_empty_iff:
  "environ_get env ''IMAGE_URL'' default_image_url = [] \<longleftrightarrow> env ''IMAGE_URL'' = Some []"
  by (simp add: environ_get_def default_image_url_def split: option.splits)

end
